theory Spec2Isabelle
  imports Complex_Main
begin

section \<open>Common types\<close>

text \<open>
  The sizes, stroke widths and animation parameters of the user interface are literals
  that the code only passes on and compares; such a \<open>number\<close> is modelled by the
  rational its literal denotes. The prices, on which the code computes, are IEEE 754
  double-precision numbers (below). Colours, keys and path data are strings.
\<close>

type_synonym number = rat

text \<open>A JavaScript error value (what a rejected promise or a throw carries).\<close>

datatype js_error = TypeError string | Rejection string

section \<open>The icon renderer (src/components/TabIcon.tsx)\<close>

text \<open>
  The drawing primitives of react-native-svg that the renderer uses. Every shape is drawn
  with round line caps and joins; that constant pair of attributes is not repeated here.
  \<open>Path d fill stroke strokeWidth transform\<close>, \<open>Circle cx cy r fill stroke strokeWidth\<close>;
  an attribute the source leaves out is \<open>None\<close>.
\<close>

datatype svg_shape =
  Path string "string option" string number "string option"
| Circle string string string "string option" string number

text \<open>\<open>Svg width height viewBox fill children\<close>.\<close>

datatype svg = Svg number number string string "svg_shape list"

text \<open>The wrapping \<open>View\<close> of the icon: its width and height, and its child (\<open>null\<close> draws nothing).\<close>

datatype icon_view = View number number "svg option"

text \<open>
  The attributes a caller writes on \<open><TabIcon ... />\<close>. The interface \<open>TabIconProps\<close>
  declares \<open>name\<close>, \<open>active\<close>, \<open>size\<close> and \<open>color\<close>; the tab shell also passes \<open>badge\<close>.
  At run time \<open>name\<close> is any string. An attribute that is not passed is \<open>None\<close>.
\<close>

record TabIconProps =
  icon_name :: string
  active :: "bool option"
  icon_size :: "number option"
  color :: "string option"
  badge :: "int option"

definition strokeWidth :: number where
  "strokeWidth = 25 / 10"

definition fill_of :: "bool \<Rightarrow> string \<Rightarrow> string option" where
  "fill_of act col = Some (if act then col else ''none'')"

text \<open>The \<open>switch (name)\<close> of \<open>renderIcon\<close>, with \<open>default: return null\<close> as \<open>None\<close>.\<close>

definition renderIcon :: "string \<Rightarrow> bool \<Rightarrow> number \<Rightarrow> string \<Rightarrow> svg option" where
  "renderIcon nm act sz col =
    (if nm = ''home'' then
       Some (Svg sz sz ''0 0 24 24'' ''none''
         [Path ''M9.5 21V14.5C9.5 13.9477 9.94772 13.5 10.5 13.5H13.5C14.0523 13.5 14.5 13.9477 14.5 14.5V21M3 9.5L12 3L21 9.5V19.5C21 20.6046 20.1046 21.5 19 21.5H5C3.89543 21.5 3 20.6046 3 19.5V9.5Z''
            (fill_of act col) col (if act then 0 else strokeWidth) None])
     else if nm = ''shop'' then
       Some (Svg sz sz ''0 0 24 24'' ''none''
         [Path ''M6 6C6 3.79086 7.79086 2 10 2H14C16.2091 2 18 3.79086 18 6V7H20C21.1046 7 22 7.89543 22 9V20C22 21.1046 21.1046 22 20 22H4C2.89543 22 2 21.1046 2 20V9C2 7.89543 2.89543 7 4 7H6V6Z''
            (fill_of act col) col strokeWidth None,
          Path ''M6 7V6C6 3.79086 7.79086 2 10 2H14C16.2091 2 18 3.79086 18 6V7''
            None col strokeWidth None])
     else if nm = ''freelance'' then
       Some (Svg sz sz ''0 0 24 24'' ''none''
         [Path ''M3 8C3 6.34315 4.34315 5 6 5H18C19.6569 5 21 6.34315 21 8V18C21 19.6569 19.6569 21 18 21H6C4.34315 21 3 19.6569 3 18V8Z''
            (fill_of act col) col strokeWidth None,
          Path ''M8 5V4C8 2.89543 8.89543 2 10 2H14C15.1046 2 16 2.89543 16 4V5''
            None col strokeWidth None,
          Path ''M3 10H21'' None col strokeWidth None])
     else if nm = ''dashboard'' then
       Some (Svg sz sz ''0 0 24 24'' ''none''
         [Path ''M21.7071 2.29289C22.4381 3.02389 22.2556 4.23949 21.3146 4.72684L4.98959 12.8893C3.96733 13.4204 2.8034 12.4721 3.08233 11.3411L4.96719 3.94803C5.11032 3.39171 5.39171 2.89032 5.94803 2.74719L13.3411 0.862326C14.4721 0.583397 15.4204 1.74733 14.8893 2.76959L6.72684 19.0946C6.23949 20.0356 5.02389 20.2181 4.29289 19.4871L2.29289 17.4871C1.90237 17.0966 1.90237 16.4634 2.29289 16.0729L16.0729 2.29289C16.4634 1.90237 17.0966 1.90237 17.4871 2.29289L21.7071 2.29289Z''
            (fill_of act col) col strokeWidth (Some ''rotate(-45 12 12)''),
          Path ''M10.5 13.5L21 3'' None col strokeWidth None])
     else if nm = ''profile'' then
       Some (Svg sz sz ''0 0 24 24'' ''none''
         [Circle ''12'' ''12'' ''9'' (fill_of act col) col strokeWidth,
          Path ''M12 12C13.6569 12 15 10.6569 15 9C15 7.34315 13.6569 6 12 6C10.3431 6 9 7.34315 9 9C9 10.6569 10.3431 12 12 12Z''
            (fill_of act col) col strokeWidth None,
          Path ''M6.16797 18.8409C6.70043 16.6229 8.76497 15 11.25 15H12.75C15.235 15 17.2996 16.6229 17.832 18.8409''
            None col strokeWidth None])
     else None)"

text \<open>
  The component: the destructuring defaults (\<open>active = false\<close>, \<open>size = 24\<close>,
  \<open>color = "#FFFFFF"\<close>), then a \<open>View\<close> of that size around \<open>renderIcon()\<close>.
  No other attribute is read.
\<close>

definition TabIcon :: "TabIconProps \<Rightarrow> icon_view" where
  "TabIcon props =
    (let act = (case active props of None \<Rightarrow> False | Some a \<Rightarrow> a);
         sz = (case icon_size props of None \<Rightarrow> 24 | Some n \<Rightarrow> n);
         col = (case color props of None \<Rightarrow> ''#FFFFFF'' | Some c \<Rightarrow> c)
     in View sz sz (renderIcon (icon_name props) act sz col))"

section \<open>Double-precision numbers\<close>

text \<open>
  A JavaScript number on which the code computes: a finite value \<open>Num x\<close> (with \<open>Num 0\<close>
  the positive zero), the negative zero, the two infinities, or \<open>NaN\<close>. A finite value
  is a rational that the format represents.
\<close>

datatype double = Num rat | NegZero | PosInfinity | NegInfinity | NaN

definition pow2 :: "int \<Rightarrow> rat" where
  "pow2 e = (if 0 \<le> e then 2 ^ nat e else 1 / 2 ^ nat (- e))"

text \<open>The number of binary digits of a positive integer.\<close>

function bit_length :: "int \<Rightarrow> nat" where
  "bit_length n = (if n \<le> 0 then 0 else Suc (bit_length (n div 2)))"
  by pat_completeness auto
termination
  by (relation "measure nat") auto

declare bit_length.simps [simp del]

text \<open>
  The binary exponent of a positive rational \<open>a\<close>: the \<open>e\<close> with \<open>2^e \<le> a < 2^(e+1)\<close>.
  With \<open>a = n / d\<close>, it is the difference of the bit lengths of \<open>n\<close> and \<open>d\<close>, or one less.
\<close>

definition ilog2 :: "rat \<Rightarrow> int" where
  "ilog2 a =
    (let (n, d) = quotient_of a;
         e0 = int (bit_length n) - int (bit_length d)
     in if pow2 e0 \<le> a then e0 else e0 - 1)"

text \<open>Rounding to the nearest integer, a tie going to the even one.\<close>

definition round_half_even :: "rat \<Rightarrow> int" where
  "round_half_even q =
    (let f = \<lfloor>q\<rfloor>; r = q - of_int f
     in if r < 1 / 2 then f else if 1 / 2 < r then f + 1 else if even f then f else f + 1)"

text \<open>
  The double nearest to an exact result (round to nearest, ties to even): 53 significant
  bits, the spacing never finer than \<open>2^-1074\<close> (subnormal numbers), a magnitude that
  rounds to nothing becoming a zero of the same sign, and one that rounds to \<open>2^1024\<close> or
  more (binary exponent 1024 or more) an infinity.
\<close>

definition round_double :: "rat \<Rightarrow> double" where
  "round_double x =
    (if x = 0 then Num 0
     else
       let a = \<bar>x\<bar>;
           e = max (ilog2 a) (- 1022);
           ulp = pow2 (e - 52);
           y = of_int (round_half_even (a / ulp)) * ulp
       in if y = 0 then (if x < 0 then NegZero else Num 0)
          else if 1024 \<le> ilog2 y then (if x < 0 then NegInfinity else PosInfinity)
          else Num (if x < 0 then - y else y))"

fun sign_bit :: "double \<Rightarrow> bool" where
  "sign_bit (Num x) = (x < 0)"
| "sign_bit NegZero = True"
| "sign_bit NegInfinity = True"
| "sign_bit PosInfinity = False"
| "sign_bit NaN = False"

fun is_zero :: "double \<Rightarrow> bool" where
  "is_zero (Num x) = (x = 0)"
| "is_zero NegZero = True"
| "is_zero d = False"

fun is_infinite :: "double \<Rightarrow> bool" where
  "is_infinite PosInfinity = True"
| "is_infinite NegInfinity = True"
| "is_infinite d = False"

text \<open>The value of a finite number (of either zero, 0).\<close>

fun finite_value :: "double \<Rightarrow> rat" where
  "finite_value (Num x) = x"
| "finite_value d = 0"

definition signed_zero :: "bool \<Rightarrow> double" where
  "signed_zero negative = (if negative then NegZero else Num 0)"

definition signed_infinity :: "bool \<Rightarrow> double" where
  "signed_infinity negative = (if negative then NegInfinity else PosInfinity)"

text \<open>\<open>a - b\<close>. An exact difference of zero is the positive zero, except for \<open>-0 - +0\<close>.\<close>

definition double_sub :: "double \<Rightarrow> double \<Rightarrow> double" where
  "double_sub a b =
    (if a = NaN \<or> b = NaN then NaN
     else if is_infinite a then (if b = a then NaN else a)
     else if is_infinite b then signed_infinity (b = PosInfinity)
     else if finite_value a - finite_value b = 0 then
       (if a = NegZero \<and> b = Num 0 then NegZero else Num 0)
     else round_double (finite_value a - finite_value b))"

text \<open>\<open>a / b\<close>.\<close>

definition double_div :: "double \<Rightarrow> double \<Rightarrow> double" where
  "double_div a b =
    (if a = NaN \<or> b = NaN then NaN
     else if is_infinite a then
       (if is_infinite b then NaN else signed_infinity (sign_bit a \<noteq> sign_bit b))
     else if is_infinite b then signed_zero (sign_bit a \<noteq> sign_bit b)
     else if is_zero b then
       (if is_zero a then NaN else signed_infinity (sign_bit a \<noteq> sign_bit b))
     else if is_zero a then signed_zero (sign_bit a \<noteq> sign_bit b)
     else round_double (finite_value a / finite_value b))"

text \<open>\<open>a * b\<close>.\<close>

definition double_mul :: "double \<Rightarrow> double \<Rightarrow> double" where
  "double_mul a b =
    (if a = NaN \<or> b = NaN then NaN
     else if is_infinite a \<or> is_infinite b then
       (if is_zero a \<or> is_zero b then NaN else signed_infinity (sign_bit a \<noteq> sign_bit b))
     else if is_zero a \<or> is_zero b then signed_zero (sign_bit a \<noteq> sign_bit b)
     else round_double (finite_value a * finite_value b))"

text \<open>\<open>a > b\<close>: false when either side is \<open>NaN\<close>; the two zeros are equal.\<close>

definition double_gt :: "double \<Rightarrow> double \<Rightarrow> bool" where
  "double_gt a b =
    (if a = NaN \<or> b = NaN then False
     else if a = PosInfinity then b \<noteq> PosInfinity
     else if a = NegInfinity then False
     else if b = PosInfinity then False
     else if b = NegInfinity then True
     else finite_value b < finite_value a)"

text \<open>A number is falsy when it is a zero or \<open>NaN\<close>.\<close>

definition truthy :: "double \<Rightarrow> bool" where
  "truthy d = (\<not> is_zero d \<and> d \<noteq> NaN)"

text \<open>
  \<open>Math.round\<close>: the integer nearest to the exact value of its argument, a half rounded
  up; the negative zero for a negative argument that rounds to zero; an infinity or
  \<open>NaN\<close> is returned as it is.
\<close>

fun Math_round :: "double \<Rightarrow> double" where
  "Math_round (Num x) =
    (if \<lfloor>x + 1 / 2\<rfloor> = 0 then (if x < 0 then NegZero else Num 0)
     else Num (of_int \<lfloor>x + 1 / 2\<rfloor>))"
| "Math_round d = d"


section \<open>Products (declared by the data service, read here)\<close>

text \<open>
  \<open>ProductWithImage\<close> is declared by the data service; the screens read these fields.
  An optional field that is absent is \<open>None\<close>.
\<close>

record ProductWithImage =
  product_id :: string
  product_name :: string
  brand :: string
  price :: double
  original_price :: "double option"
  rating :: "double option"
  image_url :: "string option"
  viewers_count :: double

section \<open>The tab shell (src/screens/MainTabsScreen.tsx)\<close>

definition iconInactive :: string where
  "iconInactive = ''#4A4A4A''"

definition iconActive :: string where
  "iconActive = ''#FFFFFF''"

record tab =
  key :: string
  label :: string
  iconName :: string

definition TABS :: "tab list" where
  "TABS =
    [\<lparr>key = ''home'', label = ''Home'', iconName = ''home''\<rparr>,
     \<lparr>key = ''shop'', label = ''Shop'', iconName = ''shop''\<rparr>,
     \<lparr>key = ''freelance'', label = ''Freelance'', iconName = ''freelance''\<rparr>,
     \<lparr>key = ''dashboard'', label = ''Dashboard'', iconName = ''dashboard''\<rparr>,
     \<lparr>key = ''profile'', label = ''Profile'', iconName = ''profile''\<rparr>]"

text \<open>
  The animations the shell starts: \<open>Timing toValue duration\<close> and
  \<open>Spring toValue friction tension\<close>. An \<open>Animated.Value\<close> is modelled by its initial
  value and the steps of the animation started on it last (starting an animation on a
  value stops the one that was running on it); \<open>Animated.sequence\<close> is the list of its
  steps. How a value moves in time is not modelled.
\<close>

datatype animation = Timing number nat | Spring number nat nat

datatype animated_value = AnimatedValue number "animation list"

fun toValue :: "animation \<Rightarrow> number" where
  "toValue (Timing v d) = v"
| "toValue (Spring v f t) = v"

text \<open>Where the value comes to rest: the \<open>toValue\<close> of the last step started on it.\<close>

fun target :: "animated_value \<Rightarrow> number" where
  "target (AnimatedValue v []) = v"
| "target (AnimatedValue v (a # as)) = toValue (last (a # as))"

fun anim_steps :: "animated_value \<Rightarrow> animation list" where
  "anim_steps (AnimatedValue v as) = as"

fun start :: "animation list \<Rightarrow> animated_value \<Rightarrow> animated_value" where
  "start steps (AnimatedValue v old) = AnimatedValue v steps"

definition enlarged :: number where
  "enlarged = 115 / 100"

definition normal :: number where
  "normal = 1"

definition shrunk :: number where
  "shrunk = 85 / 100"

datatype pager_command = SetPage nat

text \<open>
  The state of the shell: the two \<open>useState\<close> cells, the array behind the \<open>scaleAnims\<close>
  ref, and the commands the pager has received through \<open>pagerRef\<close>.
\<close>

record shell_state =
  currentPage :: nat
  selectedProduct :: "ProductWithImage option"
  scaleAnims :: "animated_value list"
  pagerCommands :: "pager_command list"

definition initial_shell :: shell_state where
  "initial_shell =
    \<lparr>currentPage = 0, selectedProduct = None,
     scaleAnims = map (\<lambda>t. AnimatedValue 1 []) TABS, pagerCommands = []\<rparr>"

text \<open>
  The component returns the detail screen alone while a product is selected, and the pager
  with the tab bar otherwise; \<open>pagerRef.current\<close> is the pager while it is mounted and
  \<open>null\<close> while it is not.
\<close>

definition pager_mounted :: "shell_state \<Rightarrow> bool" where
  "pager_mounted s = (selectedProduct s = None)"

text \<open>\<open>pagerRef.current?.setPage(index)\<close>: nothing is sent through a \<open>null\<close> ref.\<close>

definition setPage :: "nat \<Rightarrow> shell_state \<Rightarrow> shell_state" where
  "setPage index s =
    (if pager_mounted s then s\<lparr>pagerCommands := pagerCommands s @ [SetPage index]\<rparr> else s)"

definition handlePageSelected :: "nat \<Rightarrow> shell_state \<Rightarrow> shell_state" where
  "handlePageSelected position s =
    s\<lparr>currentPage := position,
      scaleAnims :=
        map (\<lambda>(i, anim). start [Spring (if i = position then enlarged else normal) 6 120] anim)
          (enumerate 0 (scaleAnims s))\<rparr>"

text \<open>
  \<open>scaleAnims[index]\<close> is \<open>undefined\<close> past the end of the array, and starting an
  animation on \<open>undefined\<close> throws before \<open>setPage\<close> is reached. \<open>currentPage\<close> is the
  value the handler closed over: the index recorded when the button was pressed.
\<close>

definition handleTabPress :: "nat \<Rightarrow> shell_state \<Rightarrow> js_error + shell_state" where
  "handleTabPress index s =
    (if index < length (scaleAnims s) then
       Inr (setPage index
         (s\<lparr>scaleAnims := (scaleAnims s)
             [index := start [Timing shrunk 100,
                              Spring (if currentPage s = index then enlarged else normal) 6 120]
                         (scaleAnims s ! index)]\<rparr>))
     else Inl (TypeError ''undefined is not an Animated.Value''))"

definition handleNavigateToCart :: "shell_state \<Rightarrow> shell_state" where
  "handleNavigateToCart s = setPage 2 s"

definition handleProductPress :: "ProductWithImage \<Rightarrow> shell_state \<Rightarrow> shell_state" where
  "handleProductPress product s = s\<lparr>selectedProduct := Some product\<rparr>"

definition handleBackFromProduct :: "shell_state \<Rightarrow> shell_state" where
  "handleBackFromProduct s = s\<lparr>selectedProduct := None\<rparr>"

text \<open>The events the shell handles, and the handler each one runs.\<close>

datatype event =
  PageSelected nat
| TabPress nat
| NavigateToCart
| ProductPress ProductWithImage
| BackFromProduct

fun dispatch :: "event \<Rightarrow> shell_state \<Rightarrow> js_error + shell_state" where
  "dispatch (PageSelected position) s = Inr (handlePageSelected position s)"
| "dispatch (TabPress index) s = handleTabPress index s"
| "dispatch NavigateToCart s = Inr (handleNavigateToCart s)"
| "dispatch (ProductPress product) s = Inr (handleProductPress product s)"
| "dispatch BackFromProduct s = Inr (handleBackFromProduct s)"

text \<open>
  What the shell renders. \<open>TabButton key scale icon\<close> is one \<open>Pressable\<close> of the bar:
  its key, the animated value its scale follows (\<open>undefined\<close> past the end of the array)
  and the view its \<open>TabIcon\<close> renders. \<open>Tabs pages bar\<close> is the pager with the keys of
  its pages and the tab bar. \<open>pendingCount\<close> comes from the \<open>useRealtimeOrders\<close> hook,
  which is outside these sources, and is a parameter here.
\<close>

datatype tab_button = TabButton string "animated_value option" icon_view

datatype shell_view =
  ProductDetailScreen ProductWithImage
| Tabs "string list" "tab_button list"

definition tabIconProps :: "int \<Rightarrow> shell_state \<Rightarrow> nat \<Rightarrow> tab \<Rightarrow> TabIconProps" where
  "tabIconProps pendingCount s index t =
    \<lparr>icon_name = iconName t,
     active = Some (currentPage s = index),
     icon_size = Some 22,
     color = Some (if currentPage s = index then iconActive else iconInactive),
     badge = (if key t = ''dashboard'' then Some pendingCount else None)\<rparr>"

definition tabBar :: "int \<Rightarrow> shell_state \<Rightarrow> tab_button list" where
  "tabBar pendingCount s =
    map (\<lambda>(index, t).
          TabButton (key t)
            (if index < length (scaleAnims s) then Some (scaleAnims s ! index) else None)
            (TabIcon (tabIconProps pendingCount s index t)))
      (enumerate 0 TABS)"

definition MainTabsScreen :: "int \<Rightarrow> shell_state \<Rightarrow> shell_view" where
  "MainTabsScreen pendingCount s =
    (case selectedProduct s of
       Some product \<Rightarrow> ProductDetailScreen product
     | None \<Rightarrow>
         Tabs [''home'', ''shop'', ''cart'', ''dashboard'', ''profile''] (tabBar pendingCount s))"

text \<open>A tab button can be pressed when the bar is on screen and the button is one of it.\<close>

definition tab_button_rendered :: "shell_state \<Rightarrow> nat \<Rightarrow> bool" where
  "tab_button_rendered s i = (selectedProduct s = None \<and> i < length TABS)"

text \<open>The array of animated values is created from \<open>TABS\<close> and never resized.\<close>

definition shell_inv :: "shell_state \<Rightarrow> bool" where
  "shell_inv s = (length (scaleAnims s) = length TABS)"

section \<open>The marketplace listing screen (MarketplaceScreen)\<close>

subsection \<open>Product cards\<close>

text \<open>
  \<open>product.original_price ? Math.round(((original_price - price) / original_price) * 100) : 0\<close>:
  an absent original price, a zero and \<open>NaN\<close> are all falsy.
\<close>

definition discount :: "ProductWithImage \<Rightarrow> double" where
  "discount product =
    (case original_price product of
       None \<Rightarrow> Num 0
     | Some op \<Rightarrow>
         if truthy op then
           Math_round (double_mul (double_div (double_sub op (price product)) op) (Num 100))
         else Num 0)"

text \<open>
  What an expression \<open>{a && b && <element>}\<close> leaves among the children of a view:
  nothing when it stops at \<open>undefined\<close>, \<open>null\<close> or \<open>false\<close>, the number itself when it
  stops at a falsy number (a zero or \<open>NaN\<close>), the element otherwise.
  \<open>OriginalPriceText p\<close> is the struck-through original price, \<open>RatingContainer r n\<close>
  the rating row with the rating and the viewer count.
\<close>

datatype card_child =
  Nothing
| BareNumber double
| OriginalPriceText double
| RatingContainer double double

text \<open>The image of a card: the picture at a URL, or a placeholder with the first letter of the name.\<close>

datatype card_image = Image string | ImagePlaceholder string

text \<open>
  A rendered card: the discount badge (the number printed in \<open>-{discount}%\<close>, present
  when \<open>discount > 0\<close>), the image, the rating row, the brand, the name, the price, and
  the original price. \<open>card_product\<close> is what a press forwards. How a number is printed
  (\<open>toFixed\<close>, \<open>toLocaleString\<close>) is not modelled.
\<close>

record card_view =
  card_product :: ProductWithImage
  discountBadge :: "double option"
  productImage :: card_image
  ratingContainer :: card_child
  brandText :: string
  productName :: string
  productPrice :: double
  originalPrice :: card_child

definition ProductCard :: "ProductWithImage \<Rightarrow> card_view" where
  "ProductCard product =
    \<lparr>card_product = product,
     discountBadge =
       (if double_gt (discount product) (Num 0) then Some (discount product) else None),
     productImage =
       (case image_url product of
          None \<Rightarrow> ImagePlaceholder (take 1 (product_name product))
        | Some url \<Rightarrow>
            if url = [] then ImagePlaceholder (take 1 (product_name product)) else Image url),
     ratingContainer =
       (case rating product of
          None \<Rightarrow> Nothing
        | Some r \<Rightarrow> if truthy r then RatingContainer r (viewers_count product) else BareNumber r),
     brandText = brand product,
     productName = product_name product,
     productPrice = price product,
     originalPrice =
       (case original_price product of
          None \<Rightarrow> Nothing
        | Some op \<Rightarrow>
            if truthy op then
              (if double_gt op (price product) then OriginalPriceText op else Nothing)
            else BareNumber op)\<rparr>"

subsection \<open>The data service and the effects of the screen\<close>

text \<open>The calls the screen makes to the data service.\<close>

datatype request =
  FetchNewProducts nat
| FetchFournisseurProducts nat
| FetchProductCategories
| FetchAllProducts
| InvalidateProductCaches

text \<open>
  The data service is outside these sources. It is a parameter: how each promise it
  returns settles, \<open>Inl\<close> a rejection and \<open>Inr\<close> the value it resolves to. The argument of
  \<open>fetchAllProducts\<close> counts the full-catalog requests made earlier in the same load
  cycle, since two calls need not settle alike. \<open>settle_time\<close> is the instant at which
  the promise of a request settles; it matters only for requests that are in flight
  together, and only through its order.
\<close>

record service =
  fetchNewProducts :: "nat \<Rightarrow> js_error + ProductWithImage list"
  fetchFournisseurProducts :: "nat \<Rightarrow> js_error + ProductWithImage list"
  fetchProductCategories :: "js_error + string list"
  fetchAllProducts :: "nat \<Rightarrow> js_error + ProductWithImage list"
  invalidateProductCaches :: "js_error + unit"
  settle_time :: "request \<Rightarrow> nat"

text \<open>
  Everything a procedure of the screen does, in the order it does it: a call to the
  service, a state setter, a line on the error console.
\<close>

datatype effect =
  Request request
| SetIsLoading bool
| SetRefreshing bool
| SetNewProducts "ProductWithImage list"
| SetSaleProducts "ProductWithImage list"
| SetCategories "string list"
| ConsoleError string js_error

text \<open>The five \<open>useState\<close> cells of the screen, and the effects performed so far.\<close>

record screen_state =
  isLoading :: bool
  refreshing :: bool
  newProducts :: "ProductWithImage list"
  saleProducts :: "ProductWithImage list"
  categories :: "string list"
  effects :: "effect list"

definition initial_screen :: screen_state where
  "initial_screen =
    \<lparr>isLoading = True, refreshing = False, newProducts = [], saleProducts = [],
     categories = [], effects = []\<rparr>"

fun apply_effect :: "effect \<Rightarrow> screen_state \<Rightarrow> screen_state" where
  "apply_effect (Request r) s = s"
| "apply_effect (SetIsLoading b) s = s\<lparr>isLoading := b\<rparr>"
| "apply_effect (SetRefreshing b) s = s\<lparr>refreshing := b\<rparr>"
| "apply_effect (SetNewProducts ps) s = s\<lparr>newProducts := ps\<rparr>"
| "apply_effect (SetSaleProducts ps) s = s\<lparr>saleProducts := ps\<rparr>"
| "apply_effect (SetCategories cs) s = s\<lparr>categories := cs\<rparr>"
| "apply_effect (ConsoleError msg e) s = s"

text \<open>
  An async procedure takes the state and returns the state it leaves, with the error its
  promise rejects with, if it does.
\<close>

type_synonym proc = "screen_state \<Rightarrow> js_error option \<times> screen_state"

definition perform :: "effect \<Rightarrow> proc" where
  "perform e s = (None, (apply_effect e s)\<lparr>effects := effects s @ [e]\<rparr>)"

text \<open>Two statements in sequence: the second does not run when the first throws.\<close>

definition seq :: "proc \<Rightarrow> proc \<Rightarrow> proc" where
  "seq p q s = (case p s of (Some e, s') \<Rightarrow> (Some e, s') | (None, s') \<Rightarrow> q s')"

text \<open>\<open>await\<close>: a rejection is thrown, a resolved value goes to the rest of the body.\<close>

definition await :: "js_error + 'a \<Rightarrow> ('a \<Rightarrow> proc) \<Rightarrow> proc" where
  "await r k s = (case r of Inl e \<Rightarrow> (Some e, s) | Inr v \<Rightarrow> k v s)"

text \<open>
  \<open>try { body } catch (error) { handler } finally { final }\<close>: the handler runs when the
  body throws, the final block runs in every case, and what is thrown in the end is what
  the last block to throw threw.
\<close>

definition try_catch_finally :: "proc \<Rightarrow> (js_error \<Rightarrow> proc) \<Rightarrow> proc \<Rightarrow> proc" where
  "try_catch_finally body handler final s =
    (case body s of
       (None, s1) \<Rightarrow> final s1
     | (Some e, s1) \<Rightarrow>
         (case handler e s1 of
            (None, s2) \<Rightarrow> final s2
          | (Some e', s2) \<Rightarrow>
              (case final s2 of
                 (None, s3) \<Rightarrow> (Some e', s3)
               | (Some e'', s3) \<Rightarrow> (Some e'', s3))))"

text \<open>
  A promise in flight is given by the instant at which it settles and by its outcome.
  \<open>rejection\<close> is its rejection with that instant, if it rejects.
\<close>

definition rejection :: "nat \<times> (js_error + 'a) \<Rightarrow> (nat \<times> js_error) list" where
  "rejection p = (case snd p of Inl e \<Rightarrow> [(fst p, e)] | Inr v \<Rightarrow> [])"

text \<open>
  The error of the rejection that comes first in time, of a first rejection and the
  others. Two promises do not settle at the same instant; for equal instants the model
  keeps the earlier in array order.
\<close>

fun earliest :: "nat \<times> js_error \<Rightarrow> (nat \<times> js_error) list \<Rightarrow> js_error" where
  "earliest (t, e) [] = e"
| "earliest (t, e) ((t', e') # rs) =
    (if t' < t then earliest (t', e') rs else earliest (t, e) rs)"

text \<open>
  \<open>Promise.all\<close> of three promises: the triple of their values when all resolve;
  otherwise it rejects, with the rejection that comes first in time, and the other
  rejections are dropped.
\<close>

definition Promise_all ::
  "nat \<times> (js_error + 'a) \<Rightarrow> nat \<times> (js_error + 'b) \<Rightarrow> nat \<times> (js_error + 'c)
    \<Rightarrow> js_error + 'a \<times> 'b \<times> 'c" where
  "Promise_all pa pb pc =
    (case snd pa of
       Inl e \<Rightarrow> Inl (earliest (fst pa, e) (rejection pb @ rejection pc))
     | Inr a \<Rightarrow>
         (case snd pb of
            Inl e \<Rightarrow> Inl (earliest (fst pb, e) (rejection pc))
          | Inr b \<Rightarrow> (case snd pc of Inl e \<Rightarrow> Inl e | Inr c \<Rightarrow> Inr (a, b, c))))"

subsection \<open>Loading and refreshing\<close>

text \<open>The body of the \<open>try\<close> block of \<open>loadData\<close>.\<close>

definition loadData_try :: "service \<Rightarrow> proc" where
  "loadData_try svc =
    seq (perform (Request (FetchNewProducts 10)))
   (seq (perform (Request (FetchFournisseurProducts 20)))
   (seq (perform (Request FetchProductCategories))
   (await (Promise_all
             (settle_time svc (FetchNewProducts 10), fetchNewProducts svc 10)
             (settle_time svc (FetchFournisseurProducts 20), fetchFournisseurProducts svc 20)
             (settle_time svc FetchProductCategories, fetchProductCategories svc))
     (\<lambda>(newProds, fournisseurProds, cats).
        seq (if length newProds = 0 then
               seq (perform (Request FetchAllProducts))
                 (await (fetchAllProducts svc 0)
                    (\<lambda>allProducts. perform (SetNewProducts (take 10 allProducts))))
             else perform (SetNewProducts newProds))
       (seq (if length fournisseurProds = 0 then
               seq (perform (Request FetchAllProducts))
                 (await (fetchAllProducts svc (if length newProds = 0 then 1 else 0))
                    (\<lambda>allProducts. perform (SetSaleProducts (take 10 allProducts))))
             else perform (SetSaleProducts fournisseurProds))
            (perform (SetCategories cats)))))))"

definition error_message :: string where
  "error_message = ''Error loading marketplace data:''"

definition loadData :: "service \<Rightarrow> proc" where
  "loadData svc =
    try_catch_finally (loadData_try svc)
      (\<lambda>error. perform (ConsoleError error_message error))
      (perform (SetIsLoading False))"

definition onRefresh :: "service \<Rightarrow> proc" where
  "onRefresh svc =
    seq (perform (SetRefreshing True))
   (seq (perform (Request InvalidateProductCaches))
   (await (invalidateProductCaches svc)
     (\<lambda>u. seq (loadData svc) (perform (SetRefreshing False)))))"

subsection \<open>What the screen renders\<close>

datatype section_view = ActivityIndicator | ProductList "card_view list" | EmptyState

definition newSection :: "screen_state \<Rightarrow> section_view" where
  "newSection s =
    (if isLoading s then ActivityIndicator
     else if length (newProducts s) > 0 then ProductList (map ProductCard (newProducts s))
     else EmptyState)"

definition saleSection :: "screen_state \<Rightarrow> section_view" where
  "saleSection s =
    (if isLoading s then ActivityIndicator
     else if length (saleProducts s) > 0 then ProductList (map ProductCard (saleProducts s))
     else EmptyState)"

text \<open>
  The screen: the state of the refresh control, the category chips (drawn when there is
  at least one), the section of new products and the sale section.
\<close>

record screen_view =
  refreshControl :: bool
  categoryChips :: "string list option"
  newView :: section_view
  saleView :: section_view

definition MarketplaceScreen :: "screen_state \<Rightarrow> screen_view" where
  "MarketplaceScreen s =
    \<lparr>refreshControl = refreshing s,
     categoryChips = (if length (categories s) > 0 then Some (categories s) else None),
     newView = newSection s,
     saleView = saleSection s\<rparr>"

text \<open>The three requests every load cycle makes first.\<close>

definition initial_requests :: "effect list" where
  "initial_requests =
    [Request (FetchNewProducts 10), Request (FetchFournisseurProducts 20),
     Request FetchProductCategories]"

text \<open>
  The rejections among the three requests a load cycle makes together, each with the
  instant at which it comes, in array order.
\<close>

definition concurrent_rejections :: "service \<Rightarrow> (nat \<times> js_error) list" where
  "concurrent_rejections svc =
    rejection (settle_time svc (FetchNewProducts 10), fetchNewProducts svc 10)
    @ rejection (settle_time svc (FetchFournisseurProducts 20), fetchFournisseurProducts svc 20)
    @ rejection (settle_time svc FetchProductCategories, fetchProductCategories svc)"

text \<open>The effects performed between an earlier state and a later one.\<close>

definition effects_since :: "screen_state \<Rightarrow> screen_state \<Rightarrow> effect list" where
  "effects_since s s' = drop (length (effects s)) (effects s')"

section \<open>Sample data for the examples\<close>

definition sample_product :: "nat \<Rightarrow> ProductWithImage" where
  "sample_product n =
    \<lparr>product_id = replicate (Suc n) CHR ''i'', product_name = ''Item'', brand = ''Brand'',
     price = Num (of_nat n + 1), original_price = None, rating = None,
     image_url = None, viewers_count = Num 0\<rparr>"

definition catalog25 :: "ProductWithImage list" where
  "catalog25 = map sample_product [0..<25]"






text \<open>
  A service with no new items, one supplier item, one category and a catalog of 25
  items; every request resolves.
\<close>

definition resolving_service :: service where
  "resolving_service =
    \<lparr>fetchNewProducts = (\<lambda>limit. Inr []),
     fetchFournisseurProducts = (\<lambda>limit. Inr [sample_product 30]),
     fetchProductCategories = Inr [''Shoes''],
     fetchAllProducts = (\<lambda>k. Inr catalog25),
     invalidateProductCaches = Inr (),
     settle_time = (\<lambda>r. 0)\<rparr>"

text \<open>The same service with the category request rejected.\<close>

definition categories_rejecting_service :: service where
  "categories_rejecting_service =
    resolving_service\<lparr>fetchProductCategories := Inl (Rejection ''network'')\<rparr>"

text \<open>The resolving service with every full-catalog request rejected.\<close>

definition catalog_rejecting_service :: service where
  "catalog_rejecting_service =
    resolving_service\<lparr>fetchAllProducts := (\<lambda>k. Inl (Rejection ''timeout''))\<rparr>"

text \<open>
  A service with no new and no supplier items, whose first full-catalog request resolves
  and whose second is rejected.
\<close>

definition second_catalog_rejecting_service :: service where
  "second_catalog_rejecting_service =
    resolving_service
      \<lparr>fetchFournisseurProducts := (\<lambda>limit. Inr []),
       fetchAllProducts := (\<lambda>k. if k = 0 then Inr catalog25 else Inl (Rejection ''timeout''))\<rparr>"

text \<open>
  A service whose category request is rejected first, at instant 1, and whose new-items
  request is rejected later, at instant 2.
\<close>

definition racing_service :: service where
  "racing_service =
    resolving_service
      \<lparr>fetchNewProducts := (\<lambda>limit. Inl (Rejection ''slow'')),
       fetchProductCategories := Inl (Rejection ''fast''),
       settle_time := (\<lambda>r. if r = FetchProductCategories then 1 else 2)\<rparr>"

text \<open>The resolving service with the cache invalidation rejected.\<close>

definition invalidation_rejecting_service :: service where
  "invalidation_rejecting_service =
    resolving_service\<lparr>invalidateProductCaches := Inl (Rejection ''offline'')\<rparr>"

text \<open>A screen that has finished an earlier load and shows one new and one sale product.\<close>

definition loaded_screen :: screen_state where
  "loaded_screen =
    \<lparr>isLoading = False, refreshing = False, newProducts = [sample_product 0],
     saleProducts = [sample_product 1], categories = [''Shoes''], effects = []\<rparr>"

section \<open>Properties of the icon renderer\<close>

text \<open>
  C9. For every icon name outside home, shop, freelance, dashboard and profile, the icon
  renderer produces no drawing: \<open>renderIcon\<close> returns \<open>null\<close> (a value, not an exception),
  and the component renders an empty view of the requested size.
\<close>

theorem renderIcon_unknown_name:
  assumes "nm \<notin> {''home'', ''shop'', ''freelance'', ''dashboard'', ''profile''}"
  shows "renderIcon nm act sz col = None
       \<and> TabIcon \<lparr>icon_name = nm, active = Some act, icon_size = Some sz,
                   color = Some col, badge = b\<rparr> = View sz sz None"
  using assms by (simp add: renderIcon_def TabIcon_def)

theorem renderIcon_unknown_name_witness:
  "''cart'' \<notin> {''home'', ''shop'', ''freelance'', ''dashboard'', ''profile''}
   \<and> renderIcon ''cart'' True 22 ''#FFFFFF'' = None
   \<and> TabIcon \<lparr>icon_name = ''cart'', active = Some True, icon_size = Some 22,
               color = Some ''#FFFFFF'', badge = None\<rparr> = View 22 22 None"
  using renderIcon_unknown_name [of "''cart''" True 22 "''#FFFFFF''" None] by simp

section \<open>Properties of the tab shell\<close>

lemma TabIcon_badge_irrelevant:
  "TabIcon (tabIconProps n s index t) = TabIcon (tabIconProps m s index t)"
  by (simp add: TabIcon_def tabIconProps_def)

lemma anim_steps_start: "anim_steps (start as v) = as"
  by (cases v) simp

lemma target_start: "target (start (xs @ [a]) v) = toValue a"
  by (cases v; cases xs) simp_all

lemma handlePageSelected_nth:
  "i < length (scaleAnims s) \<Longrightarrow>
   scaleAnims (handlePageSelected p s) ! i =
     start [Spring (if i = p then enlarged else normal) 6 120] (scaleAnims s ! i)"
  by (simp add: handlePageSelected_def enumerate_eq_zip)

text \<open>
  C1. The claim: with an authenticated seller, the pending notification count of the
  realtime orders subscription is displayed as a badge on the dashboard tab's icon.
  The shell passes \<open>badge = pendingCount\<close> to the dashboard \<open>TabIcon\<close>, but \<open>TabIcon\<close>
  neither declares nor reads that attribute: what the shell renders is the same for
  every pending count, so no count is displayed anywhere.
\<close>

theorem MainTabsScreen_badge_not_rendered:
  "MainTabsScreen pendingCount s = MainTabsScreen 0 s"
  by (simp add: MainTabsScreen_def tabBar_def TabIcon_badge_irrelevant [of pendingCount _ _ _ 0]
      split: option.splits)

text \<open>
  C3, as stated, fails. On page 0, pressing tab 1 sends the pager to page 1, and page 1
  becomes the current page once the pager reports it; yet the rebound started by the
  press goes to the normal scale 1, not to the enlarged scale.
\<close>

theorem handleTabPress_rebound_counterexample:
  "handleTabPress 1 initial_shell =
     Inr \<lparr>currentPage = 0, selectedProduct = None,
          scaleAnims =
            [AnimatedValue 1 [],
             AnimatedValue 1 [Timing (85 / 100) 100, Spring 1 6 120],
             AnimatedValue 1 [], AnimatedValue 1 [], AnimatedValue 1 []],
          pagerCommands = [SetPage 1]\<rparr>
   \<and> currentPage (handlePageSelected 1
        \<lparr>currentPage = 0, selectedProduct = None,
         scaleAnims =
           [AnimatedValue 1 [],
            AnimatedValue 1 [Timing (85 / 100) 100, Spring 1 6 120],
            AnimatedValue 1 [], AnimatedValue 1 [], AnimatedValue 1 []],
         pagerCommands = [SetPage 1]\<rparr>) = 1
   \<and> enlarged \<noteq> 1"
  by (simp add: handleTabPress_def initial_shell_def TABS_def setPage_def pager_mounted_def
      handlePageSelected_def shrunk_def normal_def enlarged_def)

text \<open>
  C3, amended. Pressing tab button \<open>i\<close> starts on tab \<open>i\<close> a sequence of two animations:
  a timing to the scale 0.85, then a spring to the enlarged scale 1.15 if \<open>i\<close> is the
  current page at the time of the press, and to the normal scale 1 otherwise. The
  animations of the other tabs are left as they were.
\<close>

theorem handleTabPress_animation:
  assumes "tab_button_rendered s i" and "shell_inv s"
  shows "\<exists>s'. handleTabPress i s = Inr s'
       \<and> anim_steps (scaleAnims s' ! i) =
           [Timing shrunk 100, Spring (if currentPage s = i then enlarged else normal) 6 120]
       \<and> (\<forall>j < length TABS. j \<noteq> i \<longrightarrow> scaleAnims s' ! j = scaleAnims s ! j)"
  using assms
  by (simp add: handleTabPress_def tab_button_rendered_def shell_inv_def setPage_def
      pager_mounted_def anim_steps_start)

theorem handleTabPress_animation_witness:
  "tab_button_rendered initial_shell 1 \<and> shell_inv initial_shell
   \<and> (\<exists>s'. handleTabPress 1 initial_shell = Inr s'
       \<and> anim_steps (scaleAnims s' ! 1) = [Timing shrunk 100, Spring normal 6 120]
       \<and> 0 < length TABS
       \<and> scaleAnims s' ! 0 = scaleAnims initial_shell ! 0)"
proof -
  have r: "tab_button_rendered initial_shell 1"
    by (simp add: tab_button_rendered_def initial_shell_def TABS_def)
  have v: "shell_inv initial_shell"
    by (simp add: shell_inv_def initial_shell_def)
  have l: "0 < length TABS"
    by (simp add: TABS_def)
  have c: "currentPage initial_shell \<noteq> 1"
    by (simp add: initial_shell_def)
  from handleTabPress_animation [OF r v] obtain s' where
    "handleTabPress 1 initial_shell = Inr s'"
    and "anim_steps (scaleAnims s' ! 1) =
           [Timing shrunk 100, Spring (if currentPage initial_shell = 1 then enlarged else normal) 6 120]"
    and "\<forall>j < length TABS. j \<noteq> 1 \<longrightarrow> scaleAnims s' ! j = scaleAnims initial_shell ! j"
    by blast
  with l c have "handleTabPress 1 initial_shell = Inr s'
       \<and> anim_steps (scaleAnims s' ! 1) = [Timing shrunk 100, Spring normal 6 120]
       \<and> 0 < length TABS
       \<and> scaleAnims s' ! 0 = scaleAnims initial_shell ! 0"
    by simp
  with r v show ?thesis by blast
qed

text \<open>
  C4. A press of tab button \<open>i\<close> sends the pager exactly one command, \<open>setPage i\<close>, and
  leaves the recorded current page as it was. Of all the events the shell handles, only
  the pager's page-selected event changes the recorded current page, to the position it
  reports.
\<close>

theorem handleTabPress_jump:
  assumes "tab_button_rendered s i" and "shell_inv s"
  shows "(\<exists>s'. handleTabPress i s = Inr s'
            \<and> pagerCommands s' = pagerCommands s @ [SetPage i]
            \<and> currentPage s' = currentPage s)
       \<and> (\<forall>e s'. dispatch e s = Inr s' \<and> currentPage s' \<noteq> currentPage s
            \<longrightarrow> e = PageSelected (currentPage s'))"
proof -
  have a: "\<exists>s'. handleTabPress i s = Inr s'
            \<and> pagerCommands s' = pagerCommands s @ [SetPage i]
            \<and> currentPage s' = currentPage s"
    using assms
    by (simp add: handleTabPress_def tab_button_rendered_def shell_inv_def setPage_def
        pager_mounted_def)
  have b: "e = PageSelected (currentPage s')"
    if "dispatch e s = Inr s'" and "currentPage s' \<noteq> currentPage s" for e s'
    using that
    by (cases e)
      (auto simp: handleTabPress_def handlePageSelected_def handleNavigateToCart_def
        handleProductPress_def handleBackFromProduct_def setPage_def split: if_splits)
  from a b show ?thesis by blast
qed

theorem handleTabPress_jump_witness:
  "tab_button_rendered initial_shell 3 \<and> shell_inv initial_shell
   \<and> (\<exists>s'. handleTabPress 3 initial_shell = Inr s'
            \<and> pagerCommands s' = pagerCommands initial_shell @ [SetPage 3]
            \<and> currentPage s' = currentPage initial_shell)
   \<and> dispatch (PageSelected 3) initial_shell = Inr (handlePageSelected 3 initial_shell)
   \<and> currentPage (handlePageSelected 3 initial_shell) \<noteq> currentPage initial_shell"
proof -
  have r: "tab_button_rendered initial_shell 3"
    by (simp add: tab_button_rendered_def initial_shell_def TABS_def)
  have v: "shell_inv initial_shell"
    by (simp add: shell_inv_def initial_shell_def)
  have c: "currentPage (handlePageSelected 3 initial_shell) \<noteq> currentPage initial_shell"
    by (simp add: handlePageSelected_def initial_shell_def)
  from handleTabPress_jump [OF r v] r v c show ?thesis by simp
qed

text \<open>
  C8. After the pager reports the settled position \<open>p\<close> (one of its five pages), the
  current page index is \<open>p\<close>, the animation target of tab \<open>p\<close> is the enlarged scale 1.15,
  the target of every other tab is the normal scale 1, and so exactly one tab is enlarged.
\<close>

theorem handlePageSelected_one_enlarged:
  assumes "shell_inv s" and "p < length TABS"
  shows "currentPage (handlePageSelected p s) = p
       \<and> target (scaleAnims (handlePageSelected p s) ! p) = enlarged
       \<and> (\<forall>i < length TABS. i \<noteq> p \<longrightarrow> target (scaleAnims (handlePageSelected p s) ! i) = normal)
       \<and> {i. i < length TABS \<and> target (scaleAnims (handlePageSelected p s) ! i) = enlarged} = {p}"
proof -
  have len: "length (scaleAnims s) = length TABS"
    using assms(1) by (simp add: shell_inv_def)
  have tgt: "target (scaleAnims (handlePageSelected p s) ! i) = (if i = p then enlarged else normal)"
    if "i < length TABS" for i
    using that len target_start [of "[]"] by (simp add: handlePageSelected_nth)
  have ne: "normal \<noteq> enlarged"
    by (simp add: normal_def enlarged_def)
  have "currentPage (handlePageSelected p s) = p"
    by (simp add: handlePageSelected_def)
  moreover have "target (scaleAnims (handlePageSelected p s) ! p) = enlarged"
    using tgt [OF assms(2)] by simp
  moreover have "\<forall>i < length TABS. i \<noteq> p \<longrightarrow> target (scaleAnims (handlePageSelected p s) ! i) = normal"
    using tgt by simp
  moreover have "{i. i < length TABS \<and> target (scaleAnims (handlePageSelected p s) ! i) = enlarged} = {p}"
    using tgt ne assms(2) by (auto split: if_splits)
  ultimately show ?thesis by blast
qed

theorem handlePageSelected_one_enlarged_witness:
  "shell_inv initial_shell \<and> 2 < length TABS
   \<and> currentPage (handlePageSelected 2 initial_shell) = 2
   \<and> target (scaleAnims (handlePageSelected 2 initial_shell) ! 2) = enlarged
   \<and> 0 < length TABS
   \<and> target (scaleAnims (handlePageSelected 2 initial_shell) ! 0) = normal
   \<and> 4 < length TABS
   \<and> target (scaleAnims (handlePageSelected 2 initial_shell) ! 4) = normal
   \<and> {i. i < length TABS \<and> target (scaleAnims (handlePageSelected 2 initial_shell) ! i) = enlarged} = {2}"
proof -
  have v: "shell_inv initial_shell"
    by (simp add: shell_inv_def initial_shell_def)
  have l: "2 < length TABS" and l0: "0 < length TABS" and l4: "4 < length TABS"
    by (simp_all add: TABS_def)
  note th = handlePageSelected_one_enlarged [OF v l]
  from th l0 have t0: "target (scaleAnims (handlePageSelected 2 initial_shell) ! 0) = normal"
    by simp
  from th l4 have t4: "target (scaleAnims (handlePageSelected 2 initial_shell) ! 4) = normal"
    by simp
  from th v l l0 l4 t0 t4 show ?thesis by blast
qed

section \<open>Properties of the marketplace listing screen\<close>

















lemmas proc_defs = seq_def await_def perform_def try_catch_finally_def Promise_all_def
  rejection_def

text \<open>
  C5, amended. If the three concurrent requests of a load cycle all resolve, the
  new-items request to an empty sequence, the screen issues a full-catalog request, and
  if that request resolves, the new section shows exactly the first 10 items of the
  catalog (all of them when there are fewer, the empty state when there are none); with
  a catalog of 25 items exactly the first 10 are shown.
\<close>

theorem loadData_new_fallback:
  assumes "fetchNewProducts svc 10 = Inr []"
    and "fetchFournisseurProducts svc 20 = Inr fs"
    and "fetchProductCategories svc = Inr cs"
    and "fetchAllProducts svc 0 = Inr all"
  shows "(\<exists>t. effects (snd (loadData svc s)) =
            effects s @ initial_requests @ Request FetchAllProducts # t)
       \<and> newProducts (snd (loadData svc s)) = take 10 all
       \<and> newSection (snd (loadData svc s)) =
           (if all = [] then EmptyState else ProductList (map ProductCard (take 10 all)))
       \<and> (length all = 25 \<longrightarrow> length (newProducts (snd (loadData svc s))) = 10)"
  using assms
  by (auto simp: loadData_def loadData_try_def proc_defs initial_requests_def newSection_def
      split: sum.splits)


lemma length_catalog25: "length catalog25 = 25"
  by (simp add: catalog25_def)

theorem loadData_new_fallback_witness:
  "fetchNewProducts resolving_service 10 = Inr []
   \<and> fetchFournisseurProducts resolving_service 20 = Inr [sample_product 30]
   \<and> fetchProductCategories resolving_service = Inr [''Shoes'']
   \<and> fetchAllProducts resolving_service 0 = Inr catalog25
   \<and> length catalog25 = 25
   \<and> newProducts (snd (loadData resolving_service initial_screen)) = take 10 catalog25
   \<and> length (newProducts (snd (loadData resolving_service initial_screen))) = 10"
proof -
  have n: "fetchNewProducts resolving_service 10 = Inr []"
    and f: "fetchFournisseurProducts resolving_service 20 = Inr [sample_product 30]"
    and c: "fetchProductCategories resolving_service = Inr [''Shoes'']"
    and a: "fetchAllProducts resolving_service 0 = Inr catalog25"
    by (simp_all add: resolving_service_def)
  from loadData_new_fallback [OF n f c a, of initial_screen] n f c a length_catalog25
  show ?thesis by simp
qed

lemma loadData_categories_rejected:
  "loadData categories_rejecting_service s =
    (None, s\<lparr>isLoading := False,
              effects := effects s @ initial_requests @
                [ConsoleError error_message (Rejection ''network''),
                 SetIsLoading False]\<rparr>)"
  by (simp add: loadData_def loadData_try_def proc_defs initial_requests_def
      categories_rejecting_service_def resolving_service_def)

text \<open>
  C5, as stated, fails. The new-items request resolves to an empty sequence and the
  catalog has 25 items, but the category request of the same cycle is rejected: no
  full-catalog request is issued and the new section shows the empty state.
\<close>

theorem loadData_new_fallback_counterexample:
  "fetchNewProducts categories_rejecting_service 10 = Inr []
   \<and> fetchAllProducts categories_rejecting_service 0 = Inr catalog25
   \<and> length catalog25 = 25
   \<and> Request FetchAllProducts \<notin> set (effects (snd (loadData categories_rejecting_service initial_screen)))
   \<and> newProducts (snd (loadData categories_rejecting_service initial_screen)) = []
   \<and> newSection (snd (loadData categories_rejecting_service initial_screen)) = EmptyState"
  by (simp add: loadData_categories_rejected length_catalog25 initial_requests_def newSection_def)
    (simp add: categories_rejecting_service_def resolving_service_def initial_screen_def)

lemma loadData_racing:
  "loadData racing_service s =
    (None, s\<lparr>isLoading := False,
              effects := effects s @ initial_requests @
                [ConsoleError error_message (Rejection ''fast''), SetIsLoading False]\<rparr>)"
  by (simp add: loadData_def loadData_try_def proc_defs initial_requests_def
      racing_service_def resolving_service_def)

text \<open>
  C6, as stated, fails. On a screen that already shows products, a reload whose category
  request is rejected leaves both sections showing those products, not the empty state.
  And when two of the concurrent requests are rejected, only the rejection that comes
  first is written to the console: the later one, of the new-items request, is not logged.
\<close>

theorem loadData_empty_state_counterexample:
  "fetchProductCategories categories_rejecting_service = Inl (Rejection ''network'')
   \<and> newSection (snd (loadData categories_rejecting_service loaded_screen)) =
       ProductList [ProductCard (sample_product 0)]
   \<and> saleSection (snd (loadData categories_rejecting_service loaded_screen)) =
       ProductList [ProductCard (sample_product 1)]
   \<and> ProductList [ProductCard (sample_product 0)] \<noteq> EmptyState
   \<and> fetchNewProducts racing_service 10 = Inl (Rejection ''slow'')
   \<and> ConsoleError error_message (Rejection ''slow'')
       \<notin> set (effects (snd (loadData racing_service loaded_screen)))"
  by (simp add: loadData_categories_rejected loadData_racing newSection_def saleSection_def
      initial_requests_def)
    (simp add: categories_rejecting_service_def resolving_service_def loaded_screen_def
      racing_service_def)

lemma Promise_all_rejected:
  "(\<exists>e. Promise_all pa pb pc = Inl e) =
   ((\<exists>e. snd pa = Inl e) \<or> (\<exists>e. snd pb = Inl e) \<or> (\<exists>e. snd pc = Inl e))"
  by (auto simp: Promise_all_def split: sum.splits)

lemma earliest_minimal:
  "\<exists>t. (t, earliest r rs) \<in> set (r # rs) \<and> (\<forall>r' \<in> set (r # rs). t \<le> fst r')"
proof (induction rs arbitrary: r)
  case Nil
  show ?case by (cases r) simp
next
  case (Cons r' rs)
  obtain t e where r: "r = (t, e)" by (cases r)
  obtain t' e' where r': "r' = (t', e')" by (cases r')
  show ?case
  proof (cases "t' < t")
    case True
    from Cons [of "(t', e')"] obtain t0 where
      "(t0, earliest (t', e') rs) \<in> set ((t', e') # rs)"
      and "\<forall>x \<in> set ((t', e') # rs). t0 \<le> fst x"
      by blast
    with True show ?thesis
      unfolding r r' by (intro exI [of _ t0]) auto
  next
    case False
    from Cons [of "(t, e)"] obtain t0 where
      "(t0, earliest (t, e) rs) \<in> set ((t, e) # rs)"
      and "\<forall>x \<in> set ((t, e) # rs). t0 \<le> fst x"
      by blast
    with False show ?thesis
      unfolding r r' by (intro exI [of _ t0]) auto
  qed
qed

lemma Promise_all_earliest:
  "rejection pa @ rejection pb @ rejection pc = r # rs \<Longrightarrow>
   Promise_all pa pb pc = Inl (earliest r rs)"
  by (auto simp: Promise_all_def rejection_def split: sum.splits)

lemma loadData_try_rejected:
  assumes "Promise_all
             (settle_time svc (FetchNewProducts 10), fetchNewProducts svc 10)
             (settle_time svc (FetchFournisseurProducts 20), fetchFournisseurProducts svc 20)
             (settle_time svc FetchProductCategories, fetchProductCategories svc) = Inl e"
  shows "loadData_try svc s = (Some e, s\<lparr>effects := effects s @ initial_requests\<rparr>)"
  using assms by (simp add: loadData_try_def seq_def await_def perform_def initial_requests_def)

lemma loadData_caught:
  "loadData svc s =
    (case loadData_try svc s of
       (None, s1) \<Rightarrow> (None, s1\<lparr>isLoading := False, effects := effects s1 @ [SetIsLoading False]\<rparr>)
     | (Some e, s1) \<Rightarrow>
         (None, s1\<lparr>isLoading := False,
                   effects := effects s1 @
                     [ConsoleError error_message e, SetIsLoading False]\<rparr>))"
  by (simp add: loadData_def try_catch_finally_def perform_def split: prod.splits option.splits)

text \<open>
  C10. If one of the three concurrent requests of a load cycle (new items, supplier
  items, categories) is rejected, the cycle changes none of the three displayed
  collections, nor the refreshing flag; it leaves the loading flag cleared.
\<close>

theorem loadData_concurrent_rejection:
  assumes "(\<exists>e. fetchNewProducts svc 10 = Inl e)
         \<or> (\<exists>e. fetchFournisseurProducts svc 20 = Inl e)
         \<or> (\<exists>e. fetchProductCategories svc = Inl e)"
  shows "newProducts (snd (loadData svc s)) = newProducts s
       \<and> saleProducts (snd (loadData svc s)) = saleProducts s
       \<and> categories (snd (loadData svc s)) = categories s
       \<and> refreshing (snd (loadData svc s)) = refreshing s
       \<and> isLoading (snd (loadData svc s)) = False"
proof -
  from assms have "\<exists>e. Promise_all
             (settle_time svc (FetchNewProducts 10), fetchNewProducts svc 10)
             (settle_time svc (FetchFournisseurProducts 20), fetchFournisseurProducts svc 20)
             (settle_time svc FetchProductCategories, fetchProductCategories svc) = Inl e"
    by (simp add: Promise_all_rejected)
  then obtain e where "Promise_all
             (settle_time svc (FetchNewProducts 10), fetchNewProducts svc 10)
             (settle_time svc (FetchFournisseurProducts 20), fetchFournisseurProducts svc 20)
             (settle_time svc FetchProductCategories, fetchProductCategories svc) = Inl e" ..
  then have "loadData_try svc s = (Some e, s\<lparr>effects := effects s @ initial_requests\<rparr>)"
    by (rule loadData_try_rejected)
  then show ?thesis
    by (simp add: loadData_caught)
qed

theorem loadData_concurrent_rejection_witness:
  "(\<exists>e. fetchProductCategories categories_rejecting_service = Inl e)
   \<and> newProducts (snd (loadData categories_rejecting_service loaded_screen)) = newProducts loaded_screen
   \<and> saleProducts (snd (loadData categories_rejecting_service loaded_screen)) = saleProducts loaded_screen
   \<and> categories (snd (loadData categories_rejecting_service loaded_screen)) = categories loaded_screen
   \<and> isLoading (snd (loadData categories_rejecting_service loaded_screen)) = False"
proof -
  have r: "\<exists>e. fetchProductCategories categories_rejecting_service = Inl e"
    by (simp add: categories_rejecting_service_def)
  from loadData_concurrent_rejection [of categories_rejecting_service loaded_screen] r
  show ?thesis by blast
qed


lemma loadData_effects:
  "\<exists>t. effects (snd (loadData svc s)) = effects s @ initial_requests @ t
       \<and> (\<forall>b. SetRefreshing b \<notin> set t)
       \<and> Request InvalidateProductCaches \<notin> set t
       \<and> (\<forall>r. Request r \<in> set t \<longrightarrow> r = FetchAllProducts)"
  by (auto simp: loadData_caught loadData_try_def seq_def await_def perform_def Promise_all_def
      initial_requests_def split: sum.splits)

lemma loadData_resolves: "fst (loadData svc s) = None"
  by (simp add: loadData_caught split: prod.splits option.splits)

lemma loadData_clears_loading: "isLoading (snd (loadData svc s)) = False"
  by (simp add: loadData_caught split: prod.splits option.splits)

lemma loadData_try_new_fallback_rejected:
  assumes "fetchNewProducts svc 10 = Inr []"
    and "fetchFournisseurProducts svc 20 = Inr fs"
    and "fetchProductCategories svc = Inr cs"
    and "fetchAllProducts svc 0 = Inl e"
  shows "loadData_try svc s =
           (Some e, s\<lparr>effects := effects s @ initial_requests @ [Request FetchAllProducts]\<rparr>)"
  using assms
  by (simp add: loadData_try_def seq_def await_def perform_def Promise_all_def
      initial_requests_def)

lemma loadData_try_sale_fallback_rejected:
  assumes "fetchNewProducts svc 10 = Inr ns"
    and "fetchFournisseurProducts svc 20 = Inr []"
    and "fetchProductCategories svc = Inr cs"
    and "ns = [] \<longrightarrow> fetchAllProducts svc 0 = Inr all"
    and "fetchAllProducts svc (if ns = [] then 1 else 0) = Inl e"
  shows "loadData_try svc s =
           (Some e,
            s\<lparr>newProducts := (if ns = [] then take 10 all else ns),
              effects := effects s @ initial_requests
                @ (if ns = [] then [Request FetchAllProducts, SetNewProducts (take 10 all)]
                   else [SetNewProducts ns])
                @ [Request FetchAllProducts]\<rparr>)"
  using assms
  by (cases "ns = []")
    (simp_all add: loadData_try_def seq_def await_def perform_def Promise_all_def
      initial_requests_def)

text \<open>
  C6, amended. A load cycle never rejects, and it ends with the loading flag cleared.
  When requests of the cycle are rejected, exactly one rejection is caught and written to
  the error console: among the three concurrent requests the one that comes first in
  time (later ones are dropped unlogged), or that of the full-catalog request being
  awaited. The collections are not reset. After a rejection among the three concurrent
  requests, or of the full-catalog request made for the new section, the state differs
  from the state before the cycle only in the cleared loading flag; after a rejection of
  the full-catalog request made for the sale section, the new-items collection has been
  replaced and the other two are as before. So after the cycle each section shows the
  empty state exactly when its collection is empty, and its products otherwise.
\<close>

theorem loadData_rejection_handled:
  "fst (loadData svc s) = None
   \<and> isLoading (snd (loadData svc s)) = False
   \<and> (concurrent_rejections svc \<noteq> [] \<longrightarrow>
        (\<exists>(t, e) \<in> set (concurrent_rejections svc).
           (\<forall>r \<in> set (concurrent_rejections svc). t \<le> fst r)
           \<and> snd (loadData svc s) =
               s\<lparr>isLoading := False,
                 effects := effects s @ initial_requests
                   @ [ConsoleError error_message e, SetIsLoading False]\<rparr>))
   \<and> (\<forall>fs cs e. fetchNewProducts svc 10 = Inr [] \<and> fetchFournisseurProducts svc 20 = Inr fs
        \<and> fetchProductCategories svc = Inr cs \<and> fetchAllProducts svc 0 = Inl e \<longrightarrow>
        snd (loadData svc s) =
          s\<lparr>isLoading := False,
            effects := effects s @ initial_requests
              @ [Request FetchAllProducts, ConsoleError error_message e, SetIsLoading False]\<rparr>)
   \<and> (\<forall>ns cs all e. fetchNewProducts svc 10 = Inr ns \<and> fetchFournisseurProducts svc 20 = Inr []
        \<and> fetchProductCategories svc = Inr cs \<and> (ns = [] \<longrightarrow> fetchAllProducts svc 0 = Inr all)
        \<and> fetchAllProducts svc (if ns = [] then 1 else 0) = Inl e \<longrightarrow>
        snd (loadData svc s) =
          s\<lparr>newProducts := (if ns = [] then take 10 all else ns),
            isLoading := False,
            effects := effects s @ initial_requests
              @ (if ns = [] then [Request FetchAllProducts, SetNewProducts (take 10 all)]
                 else [SetNewProducts ns])
              @ [Request FetchAllProducts, ConsoleError error_message e, SetIsLoading False]\<rparr>)
   \<and> newSection (snd (loadData svc s)) =
       (if newProducts (snd (loadData svc s)) = [] then EmptyState
        else ProductList (map ProductCard (newProducts (snd (loadData svc s)))))
   \<and> saleSection (snd (loadData svc s)) =
       (if saleProducts (snd (loadData svc s)) = [] then EmptyState
        else ProductList (map ProductCard (saleProducts (snd (loadData svc s)))))"
proof -
  have a: "\<exists>(t, e) \<in> set (concurrent_rejections svc).
           (\<forall>r \<in> set (concurrent_rejections svc). t \<le> fst r)
           \<and> snd (loadData svc s) =
               s\<lparr>isLoading := False,
                 effects := effects s @ initial_requests
                   @ [ConsoleError error_message e, SetIsLoading False]\<rparr>"
    if "concurrent_rejections svc \<noteq> []"
  proof -
    from that obtain r rs where rs: "concurrent_rejections svc = r # rs"
      by (cases "concurrent_rejections svc") auto
    then have "Promise_all
             (settle_time svc (FetchNewProducts 10), fetchNewProducts svc 10)
             (settle_time svc (FetchFournisseurProducts 20), fetchFournisseurProducts svc 20)
             (settle_time svc FetchProductCategories, fetchProductCategories svc) = Inl (earliest r rs)"
      unfolding concurrent_rejections_def by (rule Promise_all_earliest)
    then have "loadData_try svc s =
        (Some (earliest r rs), s\<lparr>effects := effects s @ initial_requests\<rparr>)"
      by (rule loadData_try_rejected)
    then have st: "snd (loadData svc s) =
               s\<lparr>isLoading := False,
                 effects := effects s @ initial_requests
                   @ [ConsoleError error_message (earliest r rs), SetIsLoading False]\<rparr>"
      by (simp add: loadData_caught)
    from earliest_minimal [of r rs] obtain t where
      "(t, earliest r rs) \<in> set (r # rs)" and "\<forall>x \<in> set (r # rs). t \<le> fst x"
      by blast
    with st show ?thesis
      unfolding rs by (intro bexI [of _ "(t, earliest r rs)"]) auto
  qed
  have b: "snd (loadData svc s) =
          s\<lparr>isLoading := False,
            effects := effects s @ initial_requests
              @ [Request FetchAllProducts, ConsoleError error_message e, SetIsLoading False]\<rparr>"
    if "fetchNewProducts svc 10 = Inr []" and "fetchFournisseurProducts svc 20 = Inr fs"
      and "fetchProductCategories svc = Inr cs" and "fetchAllProducts svc 0 = Inl e"
    for fs cs e
    using loadData_try_new_fallback_rejected [OF that, of s] by (simp add: loadData_caught)
  have c: "snd (loadData svc s) =
          s\<lparr>newProducts := (if ns = [] then take 10 all else ns),
            isLoading := False,
            effects := effects s @ initial_requests
              @ (if ns = [] then [Request FetchAllProducts, SetNewProducts (take 10 all)]
                 else [SetNewProducts ns])
              @ [Request FetchAllProducts, ConsoleError error_message e, SetIsLoading False]\<rparr>"
    if "fetchNewProducts svc 10 = Inr ns" and "fetchFournisseurProducts svc 20 = Inr []"
      and "fetchProductCategories svc = Inr cs" and "ns = [] \<longrightarrow> fetchAllProducts svc 0 = Inr all"
      and "fetchAllProducts svc (if ns = [] then 1 else 0) = Inl e"
    for ns cs all e
    using loadData_try_sale_fallback_rejected [OF that, of s] by (simp add: loadData_caught)
  have d: "newSection (snd (loadData svc s)) =
       (if newProducts (snd (loadData svc s)) = [] then EmptyState
        else ProductList (map ProductCard (newProducts (snd (loadData svc s)))))"
    by (simp add: newSection_def loadData_clears_loading)
  have e: "saleSection (snd (loadData svc s)) =
       (if saleProducts (snd (loadData svc s)) = [] then EmptyState
        else ProductList (map ProductCard (saleProducts (snd (loadData svc s)))))"
    by (simp add: saleSection_def loadData_clears_loading)
  from loadData_resolves [of svc s] loadData_clears_loading [of svc s] a b c d e
  show ?thesis by blast
qed

theorem loadData_rejection_handled_witness:
  "concurrent_rejections categories_rejecting_service = [(0, Rejection ''network'')]
   \<and> snd (loadData categories_rejecting_service loaded_screen) =
       loaded_screen\<lparr>isLoading := False,
         effects := effects loaded_screen @ initial_requests
           @ [ConsoleError error_message (Rejection ''network''), SetIsLoading False]\<rparr>
   \<and> newSection (snd (loadData categories_rejecting_service loaded_screen)) =
       ProductList [ProductCard (sample_product 0)]
   \<and> concurrent_rejections racing_service = [(2, Rejection ''slow''), (1, Rejection ''fast'')]
   \<and> snd (loadData racing_service loaded_screen) =
       loaded_screen\<lparr>isLoading := False,
         effects := effects loaded_screen @ initial_requests
           @ [ConsoleError error_message (Rejection ''fast''), SetIsLoading False]\<rparr>
   \<and> fetchNewProducts catalog_rejecting_service 10 = Inr []
   \<and> fetchFournisseurProducts catalog_rejecting_service 20 = Inr [sample_product 30]
   \<and> fetchProductCategories catalog_rejecting_service = Inr [''Shoes'']
   \<and> fetchAllProducts catalog_rejecting_service 0 = Inl (Rejection ''timeout'')
   \<and> snd (loadData catalog_rejecting_service loaded_screen) =
       loaded_screen\<lparr>isLoading := False,
         effects := effects loaded_screen @ initial_requests
           @ [Request FetchAllProducts, ConsoleError error_message (Rejection ''timeout''),
              SetIsLoading False]\<rparr>
   \<and> fetchNewProducts second_catalog_rejecting_service 10 = Inr []
   \<and> fetchFournisseurProducts second_catalog_rejecting_service 20 = Inr []
   \<and> fetchProductCategories second_catalog_rejecting_service = Inr [''Shoes'']
   \<and> fetchAllProducts second_catalog_rejecting_service 0 = Inr catalog25
   \<and> fetchAllProducts second_catalog_rejecting_service 1 = Inl (Rejection ''timeout'')
   \<and> snd (loadData second_catalog_rejecting_service loaded_screen) =
       loaded_screen\<lparr>newProducts := take 10 catalog25, isLoading := False,
         effects := effects loaded_screen @ initial_requests
           @ [Request FetchAllProducts, SetNewProducts (take 10 catalog25)]
           @ [Request FetchAllProducts, ConsoleError error_message (Rejection ''timeout''),
              SetIsLoading False]\<rparr>
   \<and> saleSection (snd (loadData second_catalog_rejecting_service loaded_screen)) =
       ProductList [ProductCard (sample_product 1)]"
proof -
  have ra: "concurrent_rejections categories_rejecting_service = [(0, Rejection ''network'')]"
    by (simp add: concurrent_rejections_def rejection_def categories_rejecting_service_def
        resolving_service_def)
  have rr: "concurrent_rejections racing_service =
      [(2, Rejection ''slow''), (1, Rejection ''fast'')]"
    by (simp add: concurrent_rejections_def rejection_def racing_service_def
        resolving_service_def)
  have b1: "fetchNewProducts catalog_rejecting_service 10 = Inr []"
    and b2: "fetchFournisseurProducts catalog_rejecting_service 20 = Inr [sample_product 30]"
    and b3: "fetchProductCategories catalog_rejecting_service = Inr [''Shoes'']"
    and b4: "fetchAllProducts catalog_rejecting_service 0 = Inl (Rejection ''timeout'')"
    by (simp_all add: catalog_rejecting_service_def resolving_service_def)
  have c1: "fetchNewProducts second_catalog_rejecting_service 10 = Inr []"
    and c2: "fetchFournisseurProducts second_catalog_rejecting_service 20 = Inr []"
    and c3: "fetchProductCategories second_catalog_rejecting_service = Inr [''Shoes'']"
    and c4: "fetchAllProducts second_catalog_rejecting_service 0 = Inr catalog25"
    and c5: "fetchAllProducts second_catalog_rejecting_service 1 = Inl (Rejection ''timeout'')"
    by (simp_all add: second_catalog_rejecting_service_def resolving_service_def)
  note ta = loadData_rejection_handled [of categories_rejecting_service loaded_screen]
  note tr = loadData_rejection_handled [of racing_service loaded_screen]
  note tb = loadData_rejection_handled [of catalog_rejecting_service loaded_screen]
  note tc = loadData_rejection_handled [of second_catalog_rejecting_service loaded_screen]
  have sa: "snd (loadData categories_rejecting_service loaded_screen) =
       loaded_screen\<lparr>isLoading := False,
         effects := effects loaded_screen @ initial_requests
           @ [ConsoleError error_message (Rejection ''network''), SetIsLoading False]\<rparr>"
    using ta by (simp add: ra)
  have na: "newSection (snd (loadData categories_rejecting_service loaded_screen)) =
       ProductList [ProductCard (sample_product 0)]"
  proof -
    have "newProducts (snd (loadData categories_rejecting_service loaded_screen)) =
        [sample_product 0]"
      unfolding sa by (simp add: loaded_screen_def)
    with ta show ?thesis by simp
  qed
  have sr: "snd (loadData racing_service loaded_screen) =
       loaded_screen\<lparr>isLoading := False,
         effects := effects loaded_screen @ initial_requests
           @ [ConsoleError error_message (Rejection ''fast''), SetIsLoading False]\<rparr>"
    using tr by (simp add: rr)
  have sb: "snd (loadData catalog_rejecting_service loaded_screen) =
       loaded_screen\<lparr>isLoading := False,
         effects := effects loaded_screen @ initial_requests
           @ [Request FetchAllProducts, ConsoleError error_message (Rejection ''timeout''),
              SetIsLoading False]\<rparr>"
    using tb b1 b2 b3 b4 by blast
  have sc: "snd (loadData second_catalog_rejecting_service loaded_screen) =
       loaded_screen\<lparr>newProducts := take 10 catalog25, isLoading := False,
         effects := effects loaded_screen @ initial_requests
           @ [Request FetchAllProducts, SetNewProducts (take 10 catalog25)]
           @ [Request FetchAllProducts, ConsoleError error_message (Rejection ''timeout''),
              SetIsLoading False]\<rparr>"
  proof -
    have "snd (loadData second_catalog_rejecting_service loaded_screen) =
          loaded_screen\<lparr>newProducts := (if ns = [] then take 10 all else ns),
            isLoading := False,
            effects := effects loaded_screen @ initial_requests
              @ (if ns = [] then [Request FetchAllProducts, SetNewProducts (take 10 all)]
                 else [SetNewProducts ns])
              @ [Request FetchAllProducts, ConsoleError error_message e, SetIsLoading False]\<rparr>"
      if "fetchNewProducts second_catalog_rejecting_service 10 = Inr ns"
        and "fetchFournisseurProducts second_catalog_rejecting_service 20 = Inr []"
        and "fetchProductCategories second_catalog_rejecting_service = Inr cs"
        and "ns = [] \<longrightarrow> fetchAllProducts second_catalog_rejecting_service 0 = Inr all"
        and "fetchAllProducts second_catalog_rejecting_service (if ns = [] then 1 else 0) = Inl e"
      for ns cs all e
      using tc that by blast
    from this [of "[]" "[''Shoes'']" catalog25 "Rejection ''timeout''"] c1 c2 c3 c4 c5
    show ?thesis by simp
  qed
  have nc: "saleSection (snd (loadData second_catalog_rejecting_service loaded_screen)) =
       ProductList [ProductCard (sample_product 1)]"
  proof -
    have "saleProducts (snd (loadData second_catalog_rejecting_service loaded_screen)) =
        [sample_product 1]"
      unfolding sc by (simp add: loaded_screen_def)
    with tc show ?thesis by simp
  qed
  from ra sa na rr sr b1 b2 b3 b4 sb c1 c2 c3 c4 c5 sc nc show ?thesis by blast
qed

lemma onRefresh_rejected:
  "invalidateProductCaches svc = Inl e \<Longrightarrow>
   onRefresh svc s =
     (Some e, s\<lparr>refreshing := True,
                 effects := effects s @ [SetRefreshing True, Request InvalidateProductCaches]\<rparr>)"
  by (simp add: onRefresh_def seq_def await_def perform_def)

lemma onRefresh_resolved:
  assumes "invalidateProductCaches svc = Inr u"
  shows "onRefresh svc s =
     (let s2 = snd (loadData svc
                 (s\<lparr>refreshing := True,
                    effects := effects s @ [SetRefreshing True, Request InvalidateProductCaches]\<rparr>))
      in (None, s2\<lparr>refreshing := False, effects := effects s2 @ [SetRefreshing False]\<rparr>))"
proof (cases "loadData svc
                 (s\<lparr>refreshing := True,
                    effects := effects s @ [SetRefreshing True, Request InvalidateProductCaches]\<rparr>)")
  case (Pair x s2)
  with loadData_resolves [of svc "s\<lparr>refreshing := True,
                    effects := effects s @ [SetRefreshing True, Request InvalidateProductCaches]\<rparr>"]
  have "x = None" by simp
  with Pair assms show ?thesis
    by (simp add: onRefresh_def seq_def await_def perform_def)
qed

text \<open>
  C7. Every pull-to-refresh first sets the refreshing flag, then calls the cache
  invalidation, once, before any other request. If the invalidation is rejected nothing
  more is done (no request is issued, and the flag stays set); if it resolves, the three
  initial-load requests follow at once. The flag is not cleared before the last effect of
  the procedure, which clears it.
\<close>

theorem onRefresh_invalidates_first:
  "effects (snd (onRefresh svc s)) = effects s @ effects_since s (snd (onRefresh svc s))
   \<and> take 2 (effects_since s (snd (onRefresh svc s))) =
       [SetRefreshing True, Request InvalidateProductCaches]
   \<and> (\<forall>r. Request r \<in> set (drop 2 (effects_since s (snd (onRefresh svc s)))) \<longrightarrow>
         r \<noteq> InvalidateProductCaches)
   \<and> SetRefreshing False \<notin> set (butlast (effects_since s (snd (onRefresh svc s))))
   \<and> (\<forall>e. invalidateProductCaches svc = Inl e \<longrightarrow>
         effects_since s (snd (onRefresh svc s)) =
           [SetRefreshing True, Request InvalidateProductCaches]
         \<and> fst (onRefresh svc s) = Some e \<and> refreshing (snd (onRefresh svc s)))
   \<and> (\<forall>u. invalidateProductCaches svc = Inr u \<longrightarrow>
         take 3 (drop 2 (effects_since s (snd (onRefresh svc s)))) = initial_requests
         \<and> last (effects_since s (snd (onRefresh svc s))) = SetRefreshing False
         \<and> fst (onRefresh svc s) = None \<and> \<not> refreshing (snd (onRefresh svc s)))"
proof (cases "invalidateProductCaches svc")
  case (Inl e)
  show ?thesis
    by (simp add: onRefresh_rejected [OF Inl] effects_since_def Inl)
next
  case (Inr u)
  define s1 where "s1 = s\<lparr>refreshing := True,
                    effects := effects s @ [SetRefreshing True, Request InvalidateProductCaches]\<rparr>"
  obtain t where t: "effects (snd (loadData svc s1)) = effects s1 @ initial_requests @ t"
    and nr: "\<forall>b. SetRefreshing b \<notin> set t"
    and ni: "Request InvalidateProductCaches \<notin> set t"
    using loadData_effects [of svc s1] by blast
  have e1: "effects s1 = effects s @ [SetRefreshing True, Request InvalidateProductCaches]"
    by (simp add: s1_def)
  have o: "onRefresh svc s =
      (None, (snd (loadData svc s1))\<lparr>refreshing := False,
                effects := effects (snd (loadData svc s1)) @ [SetRefreshing False]\<rparr>)"
    using onRefresh_resolved [OF Inr, of s] by (simp add: s1_def Let_def)
  have es: "effects_since s (snd (onRefresh svc s)) =
      [SetRefreshing True, Request InvalidateProductCaches] @ initial_requests @ t
        @ [SetRefreshing False]"
    by (simp add: o t e1 effects_since_def)
  have ef: "effects (snd (onRefresh svc s)) = effects s @ effects_since s (snd (onRefresh svc s))"
    unfolding es by (simp add: o t e1)
  have bl: "butlast (effects_since s (snd (onRefresh svc s))) =
      [SetRefreshing True, Request InvalidateProductCaches] @ initial_requests @ t"
    unfolding es by (simp add: butlast_append initial_requests_def)
  have t2: "take 2 (effects_since s (snd (onRefresh svc s))) =
       [SetRefreshing True, Request InvalidateProductCaches]"
    unfolding es by simp
  have d2: "drop 2 (effects_since s (snd (onRefresh svc s))) =
       initial_requests @ t @ [SetRefreshing False]"
    unfolding es by simp
  have t3: "take 3 (drop 2 (effects_since s (snd (onRefresh svc s)))) = initial_requests"
    unfolding d2 by (simp add: initial_requests_def)
  have once: "\<forall>r. Request r \<in> set (drop 2 (effects_since s (snd (onRefresh svc s)))) \<longrightarrow>
         r \<noteq> InvalidateProductCaches"
    unfolding d2 using ni by (auto simp: initial_requests_def)
  have stay: "SetRefreshing False \<notin> set (butlast (effects_since s (snd (onRefresh svc s))))"
    unfolding bl using nr by (auto simp: initial_requests_def)
  have la: "last (effects_since s (snd (onRefresh svc s))) = SetRefreshing False"
    unfolding es by simp
  have fin: "fst (onRefresh svc s) = None \<and> \<not> refreshing (snd (onRefresh svc s))"
    by (simp add: o)
  from ef t2 once stay t3 la fin Inr show ?thesis by simp
qed


theorem onRefresh_invalidates_first_witness:
  "invalidateProductCaches resolving_service = Inr ()
   \<and> take 2 (effects_since loaded_screen (snd (onRefresh resolving_service loaded_screen))) =
       [SetRefreshing True, Request InvalidateProductCaches]
   \<and> take 3 (drop 2 (effects_since loaded_screen (snd (onRefresh resolving_service loaded_screen))))
       = initial_requests
   \<and> Request (FetchNewProducts 10)
       \<in> set (drop 2 (effects_since loaded_screen (snd (onRefresh resolving_service loaded_screen))))
   \<and> \<not> refreshing (snd (onRefresh resolving_service loaded_screen))
   \<and> invalidateProductCaches invalidation_rejecting_service = Inl (Rejection ''offline'')
   \<and> effects_since loaded_screen (snd (onRefresh invalidation_rejecting_service loaded_screen)) =
       [SetRefreshing True, Request InvalidateProductCaches]
   \<and> refreshing (snd (onRefresh invalidation_rejecting_service loaded_screen))"
proof -
  have r: "invalidateProductCaches resolving_service = Inr ()"
    by (simp add: resolving_service_def)
  have j: "invalidateProductCaches invalidation_rejecting_service = Inl (Rejection ''offline'')"
    by (simp add: invalidation_rejecting_service_def)
  note ok = onRefresh_invalidates_first [of resolving_service loaded_screen]
  note ko = onRefresh_invalidates_first [of invalidation_rejecting_service loaded_screen]
  have t3: "take 3 (drop 2 (effects_since loaded_screen (snd (onRefresh resolving_service loaded_screen))))
       = initial_requests"
    using ok r by blast
  have "Request (FetchNewProducts 10) \<in> set initial_requests"
    by (simp add: initial_requests_def)
  then have m: "Request (FetchNewProducts 10)
       \<in> set (drop 2 (effects_since loaded_screen (snd (onRefresh resolving_service loaded_screen))))"
    using t3 in_set_takeD by metis
  from ok r have "\<not> refreshing (snd (onRefresh resolving_service loaded_screen))"
    by blast
  moreover from ok have "take 2 (effects_since loaded_screen (snd (onRefresh resolving_service loaded_screen))) =
       [SetRefreshing True, Request InvalidateProductCaches]"
    by blast
  moreover from ko j have "effects_since loaded_screen (snd (onRefresh invalidation_rejecting_service loaded_screen)) =
       [SetRefreshing True, Request InvalidateProductCaches]
     \<and> refreshing (snd (onRefresh invalidation_rejecting_service loaded_screen))"
    by blast
  ultimately show ?thesis using r j t3 m by simp
qed

end
